theory Spec2Isabelle
  imports Main "HOL-Library.Word"
begin

unbundle bit_operations_syntax

section \<open>Python strings\<close>

text \<open>
  A Python \<^verbatim>\<open>str\<close> is a sequence of Unicode code points, so it is modelled as a list of
  natural numbers: \<open>length\<close>, \<open>take\<close> and \<open>drop\<close> count what Python's \<^verbatim>\<open>len\<close> and
  slices count. \<open>lit\<close> turns an Isabelle string literal into such a list; the literals of
  the source are all ASCII.
\<close>

type_synonym str = "nat list"

definition lit :: "string \<Rightarrow> str" where
  "lit s = map of_char s"

text \<open>\<^verbatim>\<open>s.startswith(p)\<close>.\<close>

definition startswith :: "str \<Rightarrow> str \<Rightarrow> bool" where
  "startswith p s = (take (length p) s = p)"

text \<open>
  \<^verbatim>\<open>s.lower()\<close>. CPython lowers a string code point by code point. An ASCII capital
  letter becomes the small one and every other ASCII code point stays. For the code
  points from 128 on CPython consults the Unicode case table, which is not part of the
  repository: it is the parameter \<open>tab\<close>, given the code points before, the code point
  itself and the code points after it (the lower case of a capital sigma depends on its
  neighbours), and returning the code points that replace it.
\<close>

type_synonym casing = "str \<Rightarrow> nat \<Rightarrow> str \<Rightarrow> str"

fun lower_from :: "casing \<Rightarrow> str \<Rightarrow> str \<Rightarrow> str" where
  "lower_from tab before [] = []"
| "lower_from tab before (c # after) =
     (if c < 128 then [if 65 \<le> c \<and> c \<le> 90 then c + 32 else c] else tab before c after)
     @ lower_from tab (before @ [c]) after"

definition lower :: "casing \<Rightarrow> str \<Rightarrow> str" where
  "lower tab s = lower_from tab [] s"

text \<open>
  \<^verbatim>\<open>c.isspace()\<close> as \<^verbatim>\<open>str.strip()\<close> uses it: the ASCII white space (tab to carriage
  return, the four separators 28 to 31, the space) and the white space of Unicode.
\<close>

definition isspace :: "nat \<Rightarrow> bool" where
  "isspace c =
     ((9 \<le> c \<and> c \<le> 13) \<or> (28 \<le> c \<and> c \<le> 32) \<or> c = 0x85 \<or> c = 0xA0 \<or> c = 0x1680
      \<or> (0x2000 \<le> c \<and> c \<le> 0x200A) \<or> c = 0x2028 \<or> c = 0x2029 \<or> c = 0x202F
      \<or> c = 0x205F \<or> c = 0x3000)"

definition strip :: "str \<Rightarrow> str" where
  "strip s = rev (dropWhile isspace (rev (dropWhile isspace s)))"

text \<open>\<^verbatim>\<open>s.find(c)\<close> for a one-character \<open>c\<close>: the lowest index, or \<open>-1\<close>.\<close>

fun str_find :: "nat \<Rightarrow> str \<Rightarrow> int" where
  "str_find c [] = -1"
| "str_find c (x # xs) =
     (if x = c then 0 else (let r = str_find c xs in if r < 0 then -1 else r + 1))"

text \<open>
  The slice \<^verbatim>\<open>s[a:b]\<close>: a negative index counts from the end, and both indices are
  clamped to the string.
\<close>

definition slice :: "str \<Rightarrow> int \<Rightarrow> int \<Rightarrow> str" where
  "slice s a b =
     (let n = int (length s);
          a' = (if a < 0 then max 0 (a + n) else min a n);
          b' = (if b < 0 then max 0 (b + n) else min b n)
      in take (nat (b' - a')) (drop (nat a') s))"

section \<open>Exceptions and result envelopes\<close>

text \<open>
  The exceptions the operations meet: the mailbox client's \<^verbatim>\<open>HttpError\<close>, the
  \<^verbatim>\<open>binascii.Error\<close> and \<^verbatim>\<open>ValueError\<close> of the base64 decoder, the
  \<^verbatim>\<open>HeaderParseError\<close> of the MIME serialiser, the interpreter's \<^verbatim>\<open>RecursionError\<close>,
  and any other \<^verbatim>\<open>Exception\<close>, each with its text where the model knows it.
\<close>

datatype exn =
  is_HttpError: HttpError str | BinasciiError | ValueError | HeaderParseError | RecursionError
  | Exception str

text \<open>
  An error message is a fixed text, or a fixed text followed by the text of the exception
  (\<^verbatim>\<open>f"...: {e}"\<close>); the model keeps the exception itself.
\<close>

datatype errmsg = Msg str | MsgExn str exn

text \<open>
  Every operation returns \<^verbatim>\<open>{"status": "error", "error_message": ...}\<close> or
  \<^verbatim>\<open>{"status": "success", ...}\<close> with its own fields.
\<close>

datatype 'a envelope = Error errmsg | Success 'a

text \<open>The two handlers that end every operation: \<^verbatim>\<open>except HttpError\<close>, then \<^verbatim>\<open>except Exception\<close>.\<close>

definition handlers :: "str \<Rightarrow> str \<Rightarrow> exn \<Rightarrow> 'a envelope" where
  "handlers api unexpected e = (if is_HttpError e then Error (MsgExn api e) else Error (MsgExn unexpected e))"

section \<open>Messages of the mailbox\<close>

text \<open>
  A payload is the dictionary the mailbox API returns: each key may be absent. The
  \<^verbatim>\<open>body\<close> dictionary is kept with its \<^verbatim>\<open>data\<close> key, a header with its \<^verbatim>\<open>name\<close> and
  \<^verbatim>\<open>value\<close>.
\<close>

datatype body = Body (b_data: "str option")

datatype header = Header (h_name: str) (h_value: str)

datatype payload =
  Payload (p_mimeType: "str option") (p_headers: "header list option")
    (p_body: "body option") (p_parts: "payload list option")

datatype message = Message (m_payload: "payload option") (m_threadId: "str option")

text \<open>\<^verbatim>\<open>part.get("body", {}).get("data")\<close>.\<close>

definition get_data :: "body option \<Rightarrow> str option" where
  "get_data b = (case b of None \<Rightarrow> None | Some d \<Rightarrow> b_data d)"

text \<open>The empty dictionary \<^verbatim>\<open>{}\<close> that \<^verbatim>\<open>message.get('payload', {})\<close> falls back to.\<close>

definition empty_payload :: payload where
  "empty_payload = Payload None None None None"

text \<open>
  \<^verbatim>\<open>next((h['value'] for h in headers if h['name'].lower() == name), default)\<close>.
\<close>

fun header_value :: "casing \<Rightarrow> header list \<Rightarrow> str \<Rightarrow> str \<Rightarrow> str" where
  "header_value tab [] name dflt = dflt"
| "header_value tab (h # hs) name dflt =
     (if lower tab (h_name h) = name then h_value h else header_value tab hs name dflt)"

section \<open>Decoding a body\<close>

text \<open>
  \<^verbatim>\<open>base64.urlsafe_b64decode(data)\<close> of the standard library, on a \<^verbatim>\<open>str\<close>: the string
  is encoded to ASCII (a \<^verbatim>\<open>ValueError\<close> when a code point is not ASCII), \<open>-\<close> and \<open>_\<close>
  are translated to \<open>+\<close> and \<open>/\<close>, and \<^verbatim>\<open>binascii.a2b_base64\<close> decodes the result in
  its default mode: a character outside the alphabet is skipped, a pad \<open>=\<close> ends the data
  once it completes a group of four, and data that ends inside a group raises
  \<^verbatim>\<open>binascii.Error\<close>.
\<close>

definition table_a2b_base64 :: "nat \<Rightarrow> 8 word option" where
  "table_a2b_base64 c =
     (if 65 \<le> c \<and> c \<le> 90 then Some (of_nat (c - 65))
      else if 97 \<le> c \<and> c \<le> 122 then Some (of_nat (c - 71))
      else if 48 \<le> c \<and> c \<le> 57 then Some (of_nat (c + 4))
      else if c = 43 then Some 62
      else if c = 47 then Some 63
      else None)"

fun a2b_base64 :: "nat list \<Rightarrow> nat \<Rightarrow> 8 word \<Rightarrow> nat \<Rightarrow> 8 word list \<Rightarrow> exn + 8 word list" where
  "a2b_base64 [] quad_pos leftchar pads bin_data =
     (if quad_pos \<noteq> 0 then Inl BinasciiError else Inr bin_data)"
| "a2b_base64 (this_ch # rest) quad_pos leftchar pads bin_data =
     (if this_ch = 61 then
        (if 2 \<le> quad_pos then
           (if 4 \<le> quad_pos + (pads + 1) then Inr bin_data
            else a2b_base64 rest quad_pos leftchar (pads + 1) bin_data)
         else a2b_base64 rest quad_pos leftchar pads bin_data)
      else
        (case table_a2b_base64 this_ch of
           None \<Rightarrow> a2b_base64 rest quad_pos leftchar pads bin_data
         | Some v \<Rightarrow>
             (if quad_pos = 0 then a2b_base64 rest 1 v 0 bin_data
              else if quad_pos = 1 then
                a2b_base64 rest 2 (v AND 0x0f) 0 (bin_data @ [push_bit 2 leftchar OR drop_bit 4 v])
              else if quad_pos = 2 then
                a2b_base64 rest 3 (v AND 0x03) 0 (bin_data @ [push_bit 4 leftchar OR drop_bit 2 v])
              else a2b_base64 rest 0 0 0 (bin_data @ [push_bit 6 leftchar OR v]))))"

definition urlsafe_b64decode :: "str \<Rightarrow> exn + 8 word list" where
  "urlsafe_b64decode s =
     (if list_ex (\<lambda>c. 128 \<le> c) s then Inl ValueError
      else a2b_base64 (map (\<lambda>c. if c = 45 then 43 else if c = 95 then 47 else c) s) 0 0 0 [])"

text \<open>
  \<^verbatim>\<open>bytes.decode("utf-8", errors='replace')\<close>: total. A byte that cannot start a
  sequence, and a sequence broken off by a byte that cannot continue it or by the end of
  the data, become one U+FFFD each; decoding goes on at the byte that broke the sequence.
\<close>

definition continuation :: "8 word \<Rightarrow> bool" where
  "continuation b = (0x80 \<le> b \<and> b < 0xC0)"

fun utf8_replace :: "8 word list \<Rightarrow> str" where
  "utf8_replace [] = []"
| "utf8_replace (ch # s) =
     (if ch < 0x80 then unat ch # utf8_replace s
      else if ch < 0xC2 then 0xFFFD # utf8_replace s
      else if ch < 0xE0 then
        (case s of
           [] \<Rightarrow> [0xFFFD]
         | ch2 # s2 \<Rightarrow>
             if continuation ch2
             then (unat (ch AND 0x1F) * 64 + unat (ch2 AND 0x3F)) # utf8_replace s2
             else 0xFFFD # utf8_replace s)
      else if ch < 0xF0 then
        (case s of
           [] \<Rightarrow> [0xFFFD]
         | ch2 # s2 \<Rightarrow>
             if continuation ch2 then
               (if (if ch2 < 0xA0 then ch = 0xE0 else ch = 0xED) then 0xFFFD # utf8_replace s
                else
                  (case s2 of
                     [] \<Rightarrow> [0xFFFD]
                   | ch3 # s3 \<Rightarrow>
                       if continuation ch3
                       then (unat (ch AND 0x0F) * 4096 + unat (ch2 AND 0x3F) * 64
                              + unat (ch3 AND 0x3F)) # utf8_replace s3
                       else 0xFFFD # utf8_replace s2))
             else 0xFFFD # utf8_replace s)
      else if ch < 0xF5 then
        (case s of
           [] \<Rightarrow> [0xFFFD]
         | ch2 # s2 \<Rightarrow>
             if continuation ch2 then
               (if (if ch2 < 0x90 then ch = 0xF0 else ch = 0xF4) then 0xFFFD # utf8_replace s
                else
                  (case s2 of
                     [] \<Rightarrow> [0xFFFD]
                   | ch3 # s3 \<Rightarrow>
                       if continuation ch3 then
                         (case s3 of
                            [] \<Rightarrow> [0xFFFD]
                          | ch4 # s4 \<Rightarrow>
                              if continuation ch4
                              then (unat (ch AND 0x07) * 262144 + unat (ch2 AND 0x3F) * 4096
                                     + unat (ch3 AND 0x3F) * 64 + unat (ch4 AND 0x3F))
                                   # utf8_replace s4
                              else 0xFFFD # utf8_replace s3)
                       else 0xFFFD # utf8_replace s2))
             else 0xFFFD # utf8_replace s)
      else 0xFFFD # utf8_replace s)"

text \<open>\<^verbatim>\<open>base64.urlsafe_b64decode(data).decode("utf-8", errors='replace')\<close>.\<close>

definition decode_data :: "str \<Rightarrow> exn + str" where
  "decode_data d = (case urlsafe_b64decode d of Inl e \<Rightarrow> Inl e | Inr bs \<Rightarrow> Inr (utf8_replace bs))"

section \<open>The body of a message: \<^verbatim>\<open>_get_email_body\<close>\<close>

text \<open>
  The first loop over the parts: it returns from the function at the first part of type
  \<^verbatim>\<open>text/plain\<close> whose data is not empty (\<open>Some\<close> the value returned, or the exception
  of the decoder), and falls through otherwise (\<open>None\<close>).
\<close>

fun plain_loop :: "payload list \<Rightarrow> (exn + str) option" where
  "plain_loop [] = None"
| "plain_loop (part # rest) =
     (if p_mimeType part = Some (lit ''text/plain'') then
        (case get_data (p_body part) of
           None \<Rightarrow> plain_loop rest
         | Some d \<Rightarrow> if d \<noteq> [] then Some (decode_data d) else plain_loop rest)
      else plain_loop rest)"

text \<open>
  The function and its second loop, which carries the variable \<^verbatim>\<open>body\<close>: a part with
  parts of its own is searched recursively and a non-empty result is returned at once; a
  part of type \<^verbatim>\<open>text/html\<close> with data is decoded while \<^verbatim>\<open>body\<close> is still empty.
  A payload is a finite tree, so the recursion ends; the interpreter's limit on the
  depth of recursion is not modelled.
\<close>

fun get_email_body :: "payload \<Rightarrow> exn + str"
  and nested_loop :: "payload list \<Rightarrow> str \<Rightarrow> exn + str" where
  "get_email_body (Payload mimeType hs b ps) =
     (case ps of
        Some pl \<Rightarrow>
          (case plain_loop pl of
             Some r \<Rightarrow> r
           | None \<Rightarrow> nested_loop pl [])
      | None \<Rightarrow>
          if startswith (lit ''text/'') (case mimeType of None \<Rightarrow> [] | Some m \<Rightarrow> m) then
            (case get_data b of
               None \<Rightarrow> Inr []
             | Some d \<Rightarrow> if d \<noteq> [] then decode_data d else Inr [])
          else Inr [])"
| "nested_loop [] body = Inr body"
| "nested_loop (part # rest) body =
     (if p_parts part \<noteq> None then
        (case get_email_body part of
           Inl e \<Rightarrow> Inl e
         | Inr nested_body \<Rightarrow> if nested_body \<noteq> [] then Inr nested_body else nested_loop rest body)
      else if p_mimeType part = Some (lit ''text/html'') then
        (case get_data (p_body part) of
           None \<Rightarrow> nested_loop rest body
         | Some d \<Rightarrow>
             if d \<noteq> [] then
               (if body = [] then
                  (case decode_data d of
                     Inl e \<Rightarrow> Inl e
                   | Inr t \<Rightarrow> nested_loop rest t)
                else nested_loop rest body)
             else nested_loop rest body)
      else nested_loop rest body)"

text \<open>
  The function above is what \<^verbatim>\<open>_get_email_body\<close> computes when the interpreter's
  stack has room for every call it makes. The stack itself is the interpreter's matter
  (its recursion limit, the depth of the stack at the first call, how it accounts for the
  calls of built-in methods), so it is a parameter: \<open>stack k c\<close> says that the call
  \<open>c\<close>, made by the call of \<^verbatim>\<open>_get_email_body\<close> that is nested \<open>k\<close> deep in the first
  one, does not fit and raises \<^verbatim>\<open>RecursionError\<close>. The calls are the recursive call, the
  call of a method of a built-in type (\<^verbatim>\<open>dict.get\<close>, \<^verbatim>\<open>str.startswith\<close>,
  \<^verbatim>\<open>bytes.decode\<close>) and the call of the base64 decoder on a data field.
\<close>

datatype call = Recurse | Builtin | Decode str

type_synonym stack = "nat \<Rightarrow> call \<Rightarrow> bool"

definition decode_at :: "stack \<Rightarrow> nat \<Rightarrow> str \<Rightarrow> exn + str" where
  "decode_at stack k d = (if stack k (Decode d) then Inl RecursionError else decode_data d)"



text \<open>
  The depth of a payload: the number of calls of \<^verbatim>\<open>_get_email_body\<close> that can be nested
  on it, the first one counted. Only a part with parts of its own is searched by a call.
\<close>

fun depth :: "payload \<Rightarrow> nat"
  and depth_parts :: "payload list \<Rightarrow> nat" where
  "depth (Payload mimeType hs b ps) = Suc (case ps of None \<Rightarrow> 0 | Some pl \<Rightarrow> depth_parts pl)"
| "depth_parts [] = 0"
| "depth_parts (part # rest) =
     max (if p_parts part \<noteq> None then depth part else 0) (depth_parts rest)"



section \<open>The mailbox service and the generation backend\<close>

text \<open>
  The message object that \<^verbatim>\<open>_create_reply_message\<close> builds: the headers in the order
  they are set, and the texts attached as plain UTF-8 parts. The function returns, under
  \<^verbatim>\<open>raw\<close>, the bytes of this message in base64, with the thread id.
\<close>

datatype mime_message = MimeMessage (mime_headers: "(str \<times> str) list") (mime_parts: "str list")

datatype send_body = SendBody (raw: str) (sb_threadId: str)

text \<open>
  The serialiser of the \<^verbatim>\<open>email\<close> package (\<^verbatim>\<open>MIMEText(...)\<close> and
  \<^verbatim>\<open>message.as_bytes()\<close>) is not part of the repository: it is a parameter, which
  gives the bytes of a message or the exception it raises on it.
\<close>

type_synonym serialiser = "mime_message \<Rightarrow> exn + 8 word list"

text \<open>
  \<^verbatim>\<open>base64.urlsafe_b64encode(bs).decode('utf-8')\<close>: three bytes give four characters
  of the alphabet with \<open>-\<close> and \<open>_\<close>; a last group of one or two bytes is padded with
  \<open>=\<close>.
\<close>

definition table_b2a_base64 :: "8 word \<Rightarrow> nat" where
  "table_b2a_base64 v =
     (if v < 26 then unat v + 65
      else if v < 52 then unat v + 71
      else if v < 62 then unat v - 4
      else if v = 62 then 45
      else 95)"

fun urlsafe_b64encode :: "8 word list \<Rightarrow> str" where
  "urlsafe_b64encode [] = []"
| "urlsafe_b64encode [a] =
     [table_b2a_base64 (drop_bit 2 a), table_b2a_base64 (push_bit 4 (a AND 0x03)), 61, 61]"
| "urlsafe_b64encode [a, b] =
     [table_b2a_base64 (drop_bit 2 a),
      table_b2a_base64 (push_bit 4 (a AND 0x03) OR drop_bit 4 b),
      table_b2a_base64 (push_bit 2 (b AND 0x0f)), 61]"
| "urlsafe_b64encode (a # b # c # rest) =
     [table_b2a_base64 (drop_bit 2 a),
      table_b2a_base64 (push_bit 4 (a AND 0x03) OR drop_bit 4 b),
      table_b2a_base64 (push_bit 2 (b AND 0x0f) OR drop_bit 6 c),
      table_b2a_base64 (c AND 0x3f)]
     @ urlsafe_b64encode rest"

text \<open>
  The calls of the mailbox client that the operations make, each returning its result
  or the exception it raises: \<^verbatim>\<open>messages().list\<close> on the inbox and on a query (the ids
  of the stubs under \<^verbatim>\<open>messages\<close>, a key that may be absent), \<^verbatim>\<open>messages().get\<close> in
  the formats \<^verbatim>\<open>metadata\<close> and \<^verbatim>\<open>full\<close>, \<^verbatim>\<open>getProfile\<close> (the \<^verbatim>\<open>emailAddress\<close>
  of the profile, which may be absent) and \<^verbatim>\<open>messages().send\<close> (the id of the message
  sent).
\<close>

record gmail =
  list_inbox :: "int \<Rightarrow> exn + str list option"
  list_query :: "str \<Rightarrow> int \<Rightarrow> exn + str list option"
  get_metadata :: "str \<Rightarrow> exn + message"
  get_full :: "str \<Rightarrow> exn + message"
  getProfile :: "exn + str option"
  send_message :: "send_body \<Rightarrow> exn + str"


section \<open>Listing and searching\<close>

datatype email =
  Email (e_id: str) (e_threadId: "str option") (e_subject: str) (e_from: str) (e_date: str)

text \<open>The body of the inner \<^verbatim>\<open>try\<close>, after the message has been fetched.\<close>

definition email_of :: "casing \<Rightarrow> str \<Rightarrow> message \<Rightarrow> email" where
  "email_of tab msg_id msg =
     (let payload = (case m_payload msg of None \<Rightarrow> empty_payload | Some p \<Rightarrow> p);
          headers = (case p_headers payload of None \<Rightarrow> [] | Some hs \<Rightarrow> hs);
          subject = header_value tab headers (lit ''subject'') (lit ''No Subject'');
          sender = header_value tab headers (lit ''from'') (lit ''Unknown Sender'');
          date = header_value tab headers (lit ''date'') (lit ''No Date'')
      in Email msg_id (m_threadId msg) subject sender date)"

text \<open>
  The loop over the stubs, with the list it appends to: a message whose fetch raises
  (\<^verbatim>\<open>HttpError\<close> or any \<^verbatim>\<open>Exception\<close>) is logged and the loop goes on.
\<close>

fun fetch_loop :: "casing \<Rightarrow> gmail \<Rightarrow> str list \<Rightarrow> email list \<Rightarrow> email list" where
  "fetch_loop tab service [] email_list = email_list"
| "fetch_loop tab service (msg_id # messages) email_list =
     (case get_metadata service msg_id of
        Inl error \<Rightarrow> fetch_loop tab service messages email_list
      | Inr msg \<Rightarrow> fetch_loop tab service messages (email_list @ [email_of tab msg_id msg]))"

definition list_recent_emails :: "casing \<Rightarrow> gmail option \<Rightarrow> int \<Rightarrow> email list envelope" where
  "list_recent_emails tab self_service max_results =
     (case self_service of
        None \<Rightarrow> Error (Msg (lit ''Gmail service not available.''))
      | Some service \<Rightarrow>
          (case list_inbox service max_results of
             Inl e \<Rightarrow>
               handlers (lit ''An API error occurred listing emails: '')
                 (lit ''An unexpected error occurred listing emails: '') e
           | Inr results \<Rightarrow>
               (let messages = (case results of None \<Rightarrow> [] | Some ms \<Rightarrow> ms)
                in if messages = [] then Success []
                   else Success (fetch_loop tab service messages []))))"

definition search_emails :: "casing \<Rightarrow> gmail option \<Rightarrow> str \<Rightarrow> int \<Rightarrow> email list envelope" where
  "search_emails tab self_service query max_results =
     (case self_service of
        None \<Rightarrow> Error (Msg (lit ''Gmail service not available.''))
      | Some service \<Rightarrow>
          (case list_query service query max_results of
             Inl e \<Rightarrow>
               handlers (lit ''An API error occurred searching emails: '')
                 (lit ''An unexpected error occurred searching emails: '') e
           | Inr results \<Rightarrow>
               (let messages = (case results of None \<Rightarrow> [] | Some ms \<Rightarrow> ms)
                in if messages = [] then Success []
                   else Success (fetch_loop tab service messages []))))"

section \<open>Summarizing\<close>

text \<open>The address of the sender, as \<^verbatim>\<open>summarize_email_with_gemini\<close> cuts it out of the From header.\<close>

definition sender_email_of :: "str \<Rightarrow> str" where
  "sender_email_of sender_header =
     (if of_char CHR ''<'' \<in> set sender_header \<and> of_char CHR ''>'' \<in> set sender_header then
        (let start = str_find (of_char CHR ''<'') sender_header + 1;
             end_pos = str_find (of_char CHR ''>'') sender_header
         in if start < end_pos then slice sender_header start end_pos else sender_header)
      else sender_header)"




section \<open>Replying\<close>

text \<open>Lines 346 to 358: the message object, before it is serialised.\<close>

definition reply_message :: "str \<Rightarrow> str \<Rightarrow> str \<Rightarrow> str \<Rightarrow> str \<Rightarrow> str \<Rightarrow> mime_message" where
  "reply_message sender to subject reply_body original_message_id references =
     (let message = [(lit ''Content-Type'', lit ''multipart/related''),
                     (lit ''MIME-Version'', lit ''1.0'')];
          message = message @ [(lit ''to'', to)];
          message = message @ [(lit ''from'', sender)];
          message = message @ [(lit ''subject'', subject)];
          message = (if original_message_id \<noteq> []
                     then message @ [(lit ''In-Reply-To'', original_message_id)] else message);
          new_references = (if references \<noteq> []
                            then strip (references @ lit '' '' @ original_message_id)
                            else original_message_id);
          message = (if new_references \<noteq> []
                     then message @ [(lit ''References'', new_references)] else message)
      in MimeMessage message [reply_body])"

definition create_reply_message ::
    "serialiser \<Rightarrow> str \<Rightarrow> str \<Rightarrow> str \<Rightarrow> str \<Rightarrow> str \<Rightarrow> str \<Rightarrow> str \<Rightarrow> exn + send_body" where
  "create_reply_message as_bytes sender to subject reply_body thread_id original_message_id
       references =
     (case as_bytes (reply_message sender to subject reply_body original_message_id references) of
        Inl e \<Rightarrow> Inl e
      | Inr bs \<Rightarrow> Inr (SendBody (urlsafe_b64encode bs) thread_id))"

text \<open>The subject of the reply, as \<^verbatim>\<open>send_reply\<close> computes it before composing.\<close>

definition reply_subject :: "casing \<Rightarrow> str \<Rightarrow> str" where
  "reply_subject tab subject =
     (if \<not> startswith (lit ''re:'') (lower tab subject) then lit ''Re: '' @ subject else subject)"

definition send_reply ::
    "casing \<Rightarrow> serialiser \<Rightarrow> gmail option \<Rightarrow> str \<Rightarrow> str \<Rightarrow> str \<Rightarrow> str \<Rightarrow> str \<Rightarrow> str
      \<Rightarrow> str envelope" where
  "send_reply tab as_bytes self_service to subject reply_body thread_id original_message_id
       references =
     (case self_service of
        None \<Rightarrow> Error (Msg (lit ''Gmail service not available.''))
      | Some service \<Rightarrow>
     (let api = lit ''An API error occurred sending the reply: '';
          unexpected = lit ''An unexpected error occurred sending the reply: ''
      in
     (case getProfile service of
        Inl e \<Rightarrow> handlers api unexpected e
      | Inr profile \<Rightarrow>
          (case profile of
             None \<Rightarrow> Error (Msg (lit ''Could not determine sender email address from profile.''))
           | Some actual_sender \<Rightarrow>
               if actual_sender = [] then
                 Error (Msg (lit ''Could not determine sender email address from profile.''))
               else
                 (case create_reply_message as_bytes actual_sender to
                         (reply_subject tab subject) reply_body thread_id original_message_id
                         references of
                    Inl e \<Rightarrow> handlers api unexpected e
                  | Inr reply_message_dict \<Rightarrow>
                      (case send_message service reply_message_dict of
                         Inl e \<Rightarrow> handlers api unexpected e
                       | Inr message_id \<Rightarrow> Success message_id))))))"

section \<open>Inputs of the examples\<close>

text \<open>
  A case table that leaves every code point from 128 on as it is (the examples hold
  ASCII only), and a mailbox of ten messages of which \<open>m3\<close> cannot be fetched.
\<close>

definition plain_casing :: casing where
  "plain_casing before c after = [c]"

definition ten_ids :: "str list" where
  "ten_ids = [lit ''m0'', lit ''m1'', lit ''m2'', lit ''m3'', lit ''m4'', lit ''m5'', lit ''m6'',
     lit ''m7'', lit ''m8'', lit ''m9'']"

definition corrupted_mailbox :: gmail where
  "corrupted_mailbox =
     \<lparr>list_inbox = (\<lambda>max_results. Inr (Some ten_ids)),
      list_query = (\<lambda>query max_results. Inr (Some ten_ids)),
      get_metadata = (\<lambda>msg_id. if msg_id = lit ''m3'' then Inl (HttpError (lit ''corrupted''))
                                else Inr (Message None (Some (lit ''t'' @ msg_id)))),
      get_full = (\<lambda>msg_id. Inl (HttpError (lit ''not used''))),
      getProfile = Inr None,
      send_message = (\<lambda>b. Inl (HttpError (lit ''not used'')))\<rparr>"





text \<open>
  A payload that holds nothing but parts nested \<open>n\<close> levels deep; no data field in it.
\<close>

primrec nest :: "nat \<Rightarrow> payload" where
  "nest 0 = Payload None None None (Some [])"
| "nest (Suc n) = Payload None None None (Some [nest n])"



section \<open>The reply composer\<close>







lemma urlsafe_b64encode_examples:
  "urlsafe_b64encode [0x68, 0x69] = lit ''aGk=''"
  "urlsafe_b64encode [0xfb, 0xff, 0xfe] = lit ''-__-''"
  "urlsafe_b64encode [0x61] = lit ''YQ==''"
  by (simp_all add: table_b2a_base64_def lit_def)






section \<open>The subject of a reply\<close>

lemma lower_Re:
  "lower tab (lit ''Re: '' @ s) = lit ''re: '' @ lower_from tab (lit ''Re: '') s"
  by (simp add: lower_def lit_def)

lemma startswith_re_Re: "startswith (lit ''re:'') (lower tab (lit ''Re: '' @ s))"
  by (simp add: lower_Re) (simp add: startswith_def lit_def)

text \<open>
  \<^verbatim>\<open>send_reply\<close> sends the message composed with \<open>reply_subject\<close> of the subject it is
  given, and that subject is the Subject header of the message.
\<close>

lemma subject_header:
  "map_of (mime_headers (reply_message sender to subject reply_body original_message_id
        references)) (lit ''subject'') = Some subject"
  by (simp add: reply_message_def Let_def lit_def)

lemma send_reply_composes:
  assumes "getProfile service = Inr (Some actual_sender)" and "actual_sender \<noteq> []"
  shows "send_reply tab as_bytes (Some service) to subject reply_body thread_id
      original_message_id references =
     (case create_reply_message as_bytes actual_sender to (reply_subject tab subject) reply_body
         thread_id original_message_id references of
        Inl e \<Rightarrow> handlers (lit ''An API error occurred sending the reply: '')
                   (lit ''An unexpected error occurred sending the reply: '') e
      | Inr reply_message_dict \<Rightarrow>
          (case send_message service reply_message_dict of
             Inl e \<Rightarrow> handlers (lit ''An API error occurred sending the reply: '')
                        (lit ''An unexpected error occurred sending the reply: '') e
           | Inr message_id \<Rightarrow> Success message_id))"
  using assms by (simp add: send_reply_def Let_def)

text \<open>
  C3. The subject that \<^verbatim>\<open>send_reply\<close> composes with starts with \<open>re:\<close> once lowered,
  whatever the subject given; \<open>Re: \<close> is put in front exactly when the lowered subject
  does not start with \<open>re:\<close>; a subject \<open>Re: x\<close> is kept, so that \<open>Re: X\<close> and \<open>X\<close>
  both give \<open>Re: X\<close>, and \<open>RE: X\<close> and \<open>re:X\<close> are kept as they are; normalizing
  twice is normalizing once.
\<close>

theorem reply_subject_normalization:
  "startswith (lit ''re:'') (lower tab (reply_subject tab subject))
   \<and> reply_subject tab subject =
       (if startswith (lit ''re:'') (lower tab subject) then subject else lit ''Re: '' @ subject)
   \<and> reply_subject tab (lit ''Re: '' @ x) = lit ''Re: '' @ x
   \<and> reply_subject tab (lit ''Re: X'') = lit ''Re: X''
   \<and> reply_subject tab (lit ''X'') = lit ''Re: X''
   \<and> reply_subject tab (lit ''RE: X'') = lit ''RE: X''
   \<and> reply_subject tab (lit ''re:X'') = lit ''re:X''
   \<and> reply_subject tab (reply_subject tab subject) = reply_subject tab subject"
proof -
  have a: "startswith (lit ''re:'') (lower tab (reply_subject tab subject))"
    by (simp add: reply_subject_def startswith_re_Re)
  have b: "reply_subject tab subject =
       (if startswith (lit ''re:'') (lower tab subject) then subject else lit ''Re: '' @ subject)"
    by (simp add: reply_subject_def)
  have c: "reply_subject tab (lit ''Re: '' @ y) = lit ''Re: '' @ y" for y
    by (simp add: reply_subject_def startswith_re_Re)
  have d: "reply_subject tab (lit ''Re: X'') = lit ''Re: X''"
    using c [of "lit ''X''"] by (simp add: lit_def)
  have e: "reply_subject tab (lit ''X'') = lit ''Re: X''"
    by (simp add: reply_subject_def lower_def startswith_def lit_def)
  have f: "reply_subject tab (lit ''RE: X'') = lit ''RE: X''"
    by (simp add: reply_subject_def lower_def startswith_def lit_def)
  have g: "reply_subject tab (lit ''re:X'') = lit ''re:X''"
    by (simp add: reply_subject_def lower_def startswith_def lit_def)
  have h: "reply_subject tab (reply_subject tab subject) = reply_subject tab subject"
    using a by (simp add: reply_subject_def)
  show ?thesis
    by (intro conjI) (rule a, rule b, rule c, rule d, rule e, rule f, rule g, rule h)
qed

section \<open>The address of the sender\<close>

lemma str_find_absent: "c \<notin> set s \<Longrightarrow> str_find c s = -1"
  by (induction s) (auto simp: Let_def)

lemma str_find_first: "c \<notin> set pre \<Longrightarrow> str_find c (pre @ c # rest) = int (length pre)"
  by (induction pre) (auto simp: Let_def)

lemma str_find_present: "c \<in> set s \<Longrightarrow> 0 \<le> str_find c s"
  by (induction s) (auto simp: Let_def)

lemma str_find_after:
  "c \<in> set (pre @ rest) \<Longrightarrow> c \<notin> set pre \<Longrightarrow> int (length pre) \<le> str_find c (pre @ rest)"
proof (induction pre)
  case Nil
  then show ?case by (simp add: str_find_present)
next
  case (Cons a pre)
  then show ?case by (auto simp: Let_def)
qed

lemma slice_middle: "slice (pre @ mid @ post) (int (length pre)) (int (length pre + length mid)) = mid"
  by (simp add: slice_def Let_def min_def)

lemma lit_lt: "lit ''<'' = [of_char CHR ''<'']" and lit_gt: "lit ''>'' = [of_char CHR ''>'']"
  by (simp_all add: lit_def)

lemma sender_between:
  assumes "sender_header = pre @ lit ''<'' @ addr @ lit ''>'' @ post"
    and "of_char CHR ''<'' \<notin> set pre" and "of_char CHR ''>'' \<notin> set (pre @ lit ''<'' @ addr)" and "addr \<noteq> []"
  shows "sender_email_of sender_header = addr"
proof -
  let ?l = "of_char CHR ''<'' :: nat" and ?g = "of_char CHR ''>'' :: nat"
  have s1: "sender_header = pre @ ?l # (addr @ ?g # post)"
    using assms(1) by (simp add: lit_lt lit_gt)
  have s2: "sender_header = (pre @ ?l # addr) @ ?g # post"
    using assms(1) by (simp add: lit_lt lit_gt)
  have s3: "sender_header = (pre @ [?l]) @ addr @ (?g # post)"
    using assms(1) by (simp add: lit_lt lit_gt)
  have g: "?g \<notin> set (pre @ ?l # addr)"
    using assms(3) by (simp add: lit_lt)
  have f1: "str_find ?l sender_header = int (length pre)"
    unfolding s1 using assms(2) by (rule str_find_first)
  have f2: "str_find ?g sender_header = int (length (pre @ ?l # addr))"
    unfolding s2 using g by (rule str_find_first)
  have mem: "?l \<in> set sender_header" "?g \<in> set sender_header"
    unfolding s1 by simp_all
  have lt: "int (length pre) + 1 < int (length (pre @ ?l # addr))"
    using assms(4) by (cases addr) simp_all
  have sl: "slice sender_header (int (length pre) + 1) (int (length (pre @ ?l # addr))) = addr"
    using slice_middle [of "pre @ [?l]" addr "?g # post"] unfolding s3 by (simp add: add.commute)
  show ?thesis
    unfolding sender_email_of_def Let_def f1 f2 using mem lt sl by simp
qed

lemma sender_no_brackets:
  assumes "of_char CHR ''<'' \<notin> set sender_header \<or> of_char CHR ''>'' \<notin> set sender_header"
  shows "sender_email_of sender_header = sender_header"
  using assms by (auto simp: sender_email_of_def)

lemma sender_gt_first:
  assumes "sender_header = pre @ lit ''>'' @ post"
    and "of_char CHR ''<'' \<notin> set pre" and "of_char CHR ''>'' \<notin> set pre"
  shows "sender_email_of sender_header = sender_header"
proof -
  let ?l = "of_char CHR ''<'' :: nat" and ?g = "of_char CHR ''>'' :: nat"
  have s1: "sender_header = pre @ ?g # post"
    using assms(1) by (simp add: lit_gt)
  have f2: "str_find ?g sender_header = int (length pre)"
    unfolding s1 using assms(3) by (rule str_find_first)
  have f1: "int (length pre) \<le> str_find ?l sender_header" if "?l \<in> set sender_header"
    using that assms(2) unfolding s1 by (rule str_find_after)
  show ?thesis
    unfolding sender_email_of_def Let_def f2 using f1 by auto
qed

lemma sender_empty_brackets:
  assumes "sender_header = pre @ lit ''<>'' @ post"
    and "of_char CHR ''<'' \<notin> set pre" and "of_char CHR ''>'' \<notin> set pre"
  shows "sender_email_of sender_header = sender_header"
proof -
  let ?l = "of_char CHR ''<'' :: nat" and ?g = "of_char CHR ''>'' :: nat"
  have s1: "sender_header = pre @ ?l # (?g # post)"
    using assms(1) by (simp add: lit_def)
  have s2: "sender_header = (pre @ [?l]) @ ?g # post"
    using assms(1) by (simp add: lit_def)
  have g: "?g \<notin> set (pre @ [?l])"
    using assms(3) by simp
  have f1: "str_find ?l sender_header = int (length pre)"
    unfolding s1 using assms(2) by (rule str_find_first)
  have f2: "str_find ?g sender_header = int (length (pre @ [?l]))"
    unfolding s2 using g by (rule str_find_first)
  show ?thesis
    unfolding sender_email_of_def Let_def f1 f2 by simp
qed


text \<open>
  C6 (amended). The address \<^verbatim>\<open>summarize_email_with_gemini\<close> cuts out of a From header
  is what stands between the first \<open><\<close> and the first \<open>>\<close>, when the first \<open>>\<close> comes
  after the first \<open><\<close> with at least one character between them. In every other case
  the header is returned as it is: when one of the two brackets is missing, when the
  first \<open>>\<close> stands before the first \<open><\<close>, and when it follows it at once.
\<close>

theorem sender_email_of_cases:
  "(sender_header = pre @ lit ''<'' @ addr @ lit ''>'' @ post
      \<and> of_char CHR ''<'' \<notin> set pre \<and> of_char CHR ''>'' \<notin> set pre
      \<and> of_char CHR ''>'' \<notin> set addr \<and> addr \<noteq> []
    \<longrightarrow> sender_email_of sender_header = addr)
   \<and> (of_char CHR ''<'' \<notin> set sender_header \<or> of_char CHR ''>'' \<notin> set sender_header
    \<longrightarrow> sender_email_of sender_header = sender_header)
   \<and> (sender_header = pre @ lit ''>'' @ post
      \<and> of_char CHR ''<'' \<notin> set pre \<and> of_char CHR ''>'' \<notin> set pre
    \<longrightarrow> sender_email_of sender_header = sender_header)
   \<and> (sender_header = pre @ lit ''<>'' @ post
      \<and> of_char CHR ''<'' \<notin> set pre \<and> of_char CHR ''>'' \<notin> set pre
    \<longrightarrow> sender_email_of sender_header = sender_header)"
proof (intro conjI impI)
  assume "sender_header = pre @ lit ''<'' @ addr @ lit ''>'' @ post
      \<and> of_char CHR ''<'' \<notin> set pre \<and> of_char CHR ''>'' \<notin> set pre
      \<and> of_char CHR ''>'' \<notin> set addr \<and> addr \<noteq> []"
  then show "sender_email_of sender_header = addr"
    by (intro sender_between [of sender_header pre addr post]) (simp_all add: lit_def)
next
  assume "of_char CHR ''<'' \<notin> set sender_header \<or> of_char CHR ''>'' \<notin> set sender_header"
  then show "sender_email_of sender_header = sender_header"
    by (rule sender_no_brackets)
next
  assume "sender_header = pre @ lit ''>'' @ post
      \<and> of_char CHR ''<'' \<notin> set pre \<and> of_char CHR ''>'' \<notin> set pre"
  then show "sender_email_of sender_header = sender_header"
    by (intro sender_gt_first [of sender_header pre post]) simp_all
next
  assume "sender_header = pre @ lit ''<>'' @ post
      \<and> of_char CHR ''<'' \<notin> set pre \<and> of_char CHR ''>'' \<notin> set pre"
  then show "sender_email_of sender_header = sender_header"
    by (intro sender_empty_brackets [of sender_header pre post]) simp_all
qed

text \<open>
  The four cases on \<open>Name <addr>\<close>, on an address without brackets, on \<open>> <a>\<close> and on
  \<open>A <> <b>\<close>.
\<close>

theorem sender_email_of_cases_witness:
  "sender_email_of (lit ''Name <addr>'') = lit ''addr''
   \<and> sender_email_of (lit ''plain@example.com'') = lit ''plain@example.com''
   \<and> sender_email_of (lit ''> <a>'') = lit ''> <a>''
   \<and> sender_email_of (lit ''A <> <b>'') = lit ''A <> <b>''"
proof (intro conjI)
  show "sender_email_of (lit ''Name <addr>'') = lit ''addr''"
    using sender_email_of_cases [of "lit ''Name <addr>''" "lit ''Name ''" "lit ''addr''" "[]"]
    by (simp add: lit_def)
  show "sender_email_of (lit ''plain@example.com'') = lit ''plain@example.com''"
    using sender_email_of_cases [of "lit ''plain@example.com''" "[]" "[]" "[]"]
    by (simp add: lit_def)
  show "sender_email_of (lit ''> <a>'') = lit ''> <a>''"
    using sender_email_of_cases [of "lit ''> <a>''" "[]" "[]" "lit '' <a>''"]
    by (simp add: lit_def)
  show "sender_email_of (lit ''A <> <b>'') = lit ''A <> <b>''"
    using sender_email_of_cases [of "lit ''A <> <b>''" "lit ''A ''" "[]" "lit '' <b>''"]
    by (simp add: lit_def)
qed

text \<open>
  C6 as stated fails on \<open>A <>\<close>: both brackets are there, \<open><\<close> before \<open>>\<close>, and what
  stands strictly between them is the empty string, yet the header comes back whole.
\<close>

theorem sender_email_of_counterexample:
  "lit ''A <>'' = lit ''A '' @ lit ''<'' @ [] @ lit ''>''
   \<and> sender_email_of (lit ''A <>'') = lit ''A <>''
   \<and> sender_email_of (lit ''A <>'') \<noteq> []"
  by (simp add: sender_email_of_def lit_def Let_def slice_def)

section \<open>Listing and searching: a message that cannot be fetched\<close>

lemma fetch_loop_append:
  "fetch_loop tab service ids email_list =
     email_list @ map (\<lambda>i. email_of tab i (projr (get_metadata service i)))
       (filter (\<lambda>i. \<not> isl (get_metadata service i)) ids)"
  by (induction ids arbitrary: email_list) (auto split: sum.splits)

lemma list_recent_emails_fetched:
  assumes "list_inbox service max_results = Inr (Some ids)"
  shows "list_recent_emails tab (Some service) max_results =
     Success (map (\<lambda>i. email_of tab i (projr (get_metadata service i)))
       (filter (\<lambda>i. \<not> isl (get_metadata service i)) ids))"
  using assms by (simp add: list_recent_emails_def fetch_loop_append)

lemma search_emails_fetched:
  assumes "list_query service query max_results = Inr (Some ids)"
  shows "search_emails tab (Some service) query max_results =
     Success (map (\<lambda>i. email_of tab i (projr (get_metadata service i)))
       (filter (\<lambda>i. \<not> isl (get_metadata service i)) ids))"
  using assms by (simp add: search_emails_def fetch_loop_append)

lemma e_id_email_of: "e_id (email_of tab i m) = i"
  by (simp add: email_of_def Let_def)

text \<open>
  C8. When the listing call (of \<^verbatim>\<open>list_recent_emails\<close>) or the query call (of
  \<^verbatim>\<open>search_emails\<close>) returns the ids, the operation succeeds whatever the fetches of the
  single messages do: its emails are the records of the ids whose fetch did not raise,
  in the order of the ids; the ids whose fetch raised are left out.
\<close>

theorem fetch_failures_are_skipped:
  "(list_inbox service max_results = Inr (Some ids) \<longrightarrow>
      list_recent_emails tab (Some service) max_results =
        Success (map (\<lambda>i. email_of tab i (projr (get_metadata service i)))
          (filter (\<lambda>i. \<not> isl (get_metadata service i)) ids)))
   \<and> (list_query service query max_results = Inr (Some ids) \<longrightarrow>
      search_emails tab (Some service) query max_results =
        Success (map (\<lambda>i. email_of tab i (projr (get_metadata service i)))
          (filter (\<lambda>i. \<not> isl (get_metadata service i)) ids)))
   \<and> map e_id (map (\<lambda>i. email_of tab i (projr (get_metadata service i)))
          (filter (\<lambda>i. \<not> isl (get_metadata service i)) ids))
       = filter (\<lambda>i. \<not> isl (get_metadata service i)) ids"
proof (intro conjI impI)
  assume "list_inbox service max_results = Inr (Some ids)"
  then show "list_recent_emails tab (Some service) max_results =
        Success (map (\<lambda>i. email_of tab i (projr (get_metadata service i)))
          (filter (\<lambda>i. \<not> isl (get_metadata service i)) ids))"
    by (rule list_recent_emails_fetched)
next
  assume "list_query service query max_results = Inr (Some ids)"
  then show "search_emails tab (Some service) query max_results =
        Success (map (\<lambda>i. email_of tab i (projr (get_metadata service i)))
          (filter (\<lambda>i. \<not> isl (get_metadata service i)) ids))"
    by (rule search_emails_fetched)
next
  show "map e_id (map (\<lambda>i. email_of tab i (projr (get_metadata service i)))
          (filter (\<lambda>i. \<not> isl (get_metadata service i)) ids))
       = filter (\<lambda>i. \<not> isl (get_metadata service i)) ids"
    by (simp add: comp_def e_id_email_of)
qed


lemma ten_ids_ok:
  "filter (\<lambda>i. \<not> isl (get_metadata corrupted_mailbox i)) ten_ids =
    [lit ''m0'', lit ''m1'', lit ''m2'', lit ''m4'', lit ''m5'', lit ''m6'',
     lit ''m7'', lit ''m8'', lit ''m9'']"
  by (simp add: corrupted_mailbox_def ten_ids_def lit_def)

text \<open>
  Ten ids of which the fourth cannot be fetched: both operations succeed with the nine
  other records, in order.
\<close>

theorem fetch_failures_are_skipped_witness:
  "list_inbox corrupted_mailbox 10 = Inr (Some ten_ids)
   \<and> list_query corrupted_mailbox (lit ''from:a'') 10 = Inr (Some ten_ids)
   \<and> length ten_ids = 10
   \<and> list_recent_emails plain_casing (Some corrupted_mailbox) 10 =
       Success (map (\<lambda>i. Email i (Some (lit ''t'' @ i)) (lit ''No Subject'')
                        (lit ''Unknown Sender'') (lit ''No Date''))
         [lit ''m0'', lit ''m1'', lit ''m2'', lit ''m4'', lit ''m5'', lit ''m6'',
          lit ''m7'', lit ''m8'', lit ''m9''])
   \<and> search_emails plain_casing (Some corrupted_mailbox) (lit ''from:a'') 10 =
       Success (map (\<lambda>i. Email i (Some (lit ''t'' @ i)) (lit ''No Subject'')
                        (lit ''Unknown Sender'') (lit ''No Date''))
         [lit ''m0'', lit ''m1'', lit ''m2'', lit ''m4'', lit ''m5'', lit ''m6'',
          lit ''m7'', lit ''m8'', lit ''m9''])"
proof -
  have h1: "list_inbox corrupted_mailbox 10 = Inr (Some ten_ids)"
    by (simp add: corrupted_mailbox_def)
  have h2: "list_query corrupted_mailbox (lit ''from:a'') 10 = Inr (Some ten_ids)"
    by (simp add: corrupted_mailbox_def)
  have n: "length ten_ids = 10"
    by (simp add: ten_ids_def)
  have rec: "map (\<lambda>i. email_of plain_casing i (projr (get_metadata corrupted_mailbox i)))
       [lit ''m0'', lit ''m1'', lit ''m2'', lit ''m4'', lit ''m5'', lit ''m6'',
        lit ''m7'', lit ''m8'', lit ''m9'']
     = map (\<lambda>i. Email i (Some (lit ''t'' @ i)) (lit ''No Subject'')
                        (lit ''Unknown Sender'') (lit ''No Date''))
        [lit ''m0'', lit ''m1'', lit ''m2'', lit ''m4'', lit ''m5'', lit ''m6'',
         lit ''m7'', lit ''m8'', lit ''m9'']"
    by (simp add: corrupted_mailbox_def email_of_def empty_payload_def Let_def lit_def)
  note t = fetch_failures_are_skipped [of corrupted_mailbox 10 ten_ids plain_casing "lit ''from:a''"]
  have l: "list_recent_emails plain_casing (Some corrupted_mailbox) 10 =
       Success (map (\<lambda>i. Email i (Some (lit ''t'' @ i)) (lit ''No Subject'')
                        (lit ''Unknown Sender'') (lit ''No Date''))
         [lit ''m0'', lit ''m1'', lit ''m2'', lit ''m4'', lit ''m5'', lit ''m6'',
          lit ''m7'', lit ''m8'', lit ''m9''])"
    using t h1 unfolding ten_ids_ok rec by blast
  have s: "search_emails plain_casing (Some corrupted_mailbox) (lit ''from:a'') 10 =
       Success (map (\<lambda>i. Email i (Some (lit ''t'' @ i)) (lit ''No Subject'')
                        (lit ''Unknown Sender'') (lit ''No Date''))
         [lit ''m0'', lit ''m1'', lit ''m2'', lit ''m4'', lit ''m5'', lit ''m6'',
          lit ''m7'', lit ''m8'', lit ''m9''])"
    using t h2 unfolding ten_ids_ok rec by blast
  show ?thesis
    by (intro conjI) (rule h1, rule h2, rule n, rule l, rule s)
qed

section \<open>The body of a message\<close>

lemma plain_loop_first:
  assumes "list_all (\<lambda>r. p_mimeType r \<noteq> Some (lit ''text/plain'')
             \<or> get_data (p_body r) = None \<or> get_data (p_body r) = Some []) pre"
    and "p_mimeType q = Some (lit ''text/plain'')" and "get_data (p_body q) = Some d" and "d \<noteq> []"
  shows "plain_loop (pre @ q # post) = Some (decode_data d)"
  using assms by (induction pre) auto

lemma plain_loop_none:
  "list_all (\<lambda>r. p_mimeType r \<noteq> Some (lit ''text/plain'')
             \<or> get_data (p_body r) = None \<or> get_data (p_body r) = Some []) pl
   \<Longrightarrow> plain_loop pl = None"
  by (induction pl) auto

lemma html_not_plain: "lit ''text/html'' \<noteq> lit ''text/plain''"
  by (simp add: lit_def)

lemma nested_loop_skip:
  assumes "list_all (\<lambda>q. p_parts q = None \<and> p_mimeType q = Some (lit ''text/html'')) pre"
    and "list_all (\<lambda>q. case get_data (p_body q) of None \<Rightarrow> True
                        | Some d \<Rightarrow> d = [] \<or> decode_data d = Inr []) pre"
  shows "nested_loop (pre @ rest) [] = nested_loop rest []"
  using assms by (induction pre) (auto split: option.splits)

lemma nested_loop_keep:
  assumes "list_all (\<lambda>q. p_parts q = None \<and> p_mimeType q = Some (lit ''text/html'')) ps"
    and "body \<noteq> []"
  shows "nested_loop ps body = Inr body"
  using assms by (induction ps) (auto split: option.splits)

lemma decode_hi: "decode_data (lit ''aGk='') = Inr (lit ''hi'')"
  by (simp add: decode_data_def urlsafe_b64decode_def lit_def table_a2b_base64_def)

lemma decode_b_hi: "decode_data (lit ''PGI-aGk8L2I-'') = Inr (lit ''<b>hi</b>'')"
  by (simp add: decode_data_def urlsafe_b64decode_def lit_def table_a2b_base64_def)

lemma decode_a: "decode_data (lit ''a'') = Inl BinasciiError"
  by (simp add: decode_data_def urlsafe_b64decode_def lit_def table_a2b_base64_def)


lemma decode_empty: "decode_data [] = Inr []"
  by (simp add: decode_data_def urlsafe_b64decode_def)

lemma lit_not_empty:
  "lit ''aGk='' \<noteq> []" "lit ''PGI-aGk8L2I-'' \<noteq> []" "lit ''a'' \<noteq> []" "lit ''hi'' \<noteq> []"
  "lit ''<b>hi</b>'' \<noteq> []" "lit ''_w=='' \<noteq> []"
  by (simp_all add: lit_def)

lemma mime_distinct:
  "lit ''text/html'' \<noteq> lit ''text/plain''" "lit ''text/plain'' \<noteq> lit ''text/html''"
  "lit ''multipart/alternative'' \<noteq> lit ''text/plain''"
  "lit ''multipart/alternative'' \<noteq> lit ''text/html''"
  "lit ''image/png'' \<noteq> lit ''text/plain''" "lit ''image/png'' \<noteq> lit ''text/html''"
  by (simp_all add: lit_def)


text \<open>
  C4 (amended). When the parts of a payload hold a part of type \<^verbatim>\<open>text/plain\<close> whose
  data is present and not empty, \<^verbatim>\<open>_get_email_body\<close> returns what the decoder gives for
  the data of the first such part: its text, never that of an HTML part, or the
  decoder's exception. Parts of type \<^verbatim>\<open>text/plain\<close> without data (no body, no data key,
  or the empty string) are passed over.
\<close>

theorem get_email_body_first_plain:
  assumes "list_all (\<lambda>r. p_mimeType r \<noteq> Some (lit ''text/plain'')
             \<or> get_data (p_body r) = None \<or> get_data (p_body r) = Some []) pre"
    and "p_mimeType q = Some (lit ''text/plain'')"
    and "get_data (p_body q) = Some d" and "d \<noteq> []"
  shows "get_email_body (Payload mimeType hs b (Some (pre @ q # post))) = decode_data d"
  using plain_loop_first [OF assms] by simp

text \<open>
  An HTML part, a plain part without data, the plain part \<open>hi\<close>, and a plain part whose
  data cannot be decoded: the result is \<open>hi\<close>.
\<close>

theorem get_email_body_first_plain_witness:
  "get_email_body (Payload (Some (lit ''multipart/alternative'')) None None (Some
     [Payload (Some (lit ''text/html'')) None (Some (Body (Some (lit ''PGI-aGk8L2I-'')))) None,
      Payload (Some (lit ''text/plain'')) None (Some (Body None)) None,
      Payload (Some (lit ''text/plain'')) None (Some (Body (Some (lit ''aGk='')))) None,
      Payload (Some (lit ''text/plain'')) None (Some (Body (Some (lit ''a'')))) None]))
   = Inr (lit ''hi'')"
  using get_email_body_first_plain
    [of "[Payload (Some (lit ''text/html'')) None (Some (Body (Some (lit ''PGI-aGk8L2I-'')))) None,
          Payload (Some (lit ''text/plain'')) None (Some (Body None)) None]"
        "Payload (Some (lit ''text/plain'')) None (Some (Body (Some (lit ''aGk='')))) None"
        "lit ''aGk=''" "Some (lit ''multipart/alternative'')" None None
        "[Payload (Some (lit ''text/plain'')) None (Some (Body (Some (lit ''a'')))) None]"]
  by (simp add: get_data_def mime_distinct lit_not_empty decode_hi)

text \<open>
  C4 as stated fails: a payload with a part of type \<^verbatim>\<open>text/plain\<close> that has no data (or
  empty data) and an HTML part returns the HTML.
\<close>

theorem get_email_body_plain_counterexample:
  "get_email_body (Payload (Some (lit ''multipart/alternative'')) None None (Some
     [Payload (Some (lit ''text/plain'')) None (Some (Body None)) None,
      Payload (Some (lit ''text/html'')) None (Some (Body (Some (lit ''PGI-aGk8L2I-'')))) None]))
   = Inr (lit ''<b>hi</b>'')
   \<and> get_email_body (Payload (Some (lit ''multipart/alternative'')) None None (Some
     [Payload (Some (lit ''text/plain'')) None (Some (Body (Some []))) None,
      Payload (Some (lit ''text/html'')) None (Some (Body (Some (lit ''PGI-aGk8L2I-'')))) None]))
   = Inr (lit ''<b>hi</b>'')"
  by (simp add: get_data_def mime_distinct lit_not_empty decode_b_hi)

text \<open>
  C5 (amended). When the parts are all HTML parts without parts of their own, the parts
  without data, with empty data, or whose data decodes to the empty text are passed
  over; the first part with data that decodes to a text that is not empty gives the
  result, whatever the parts after it hold; a part reached in this way whose data
  cannot be decoded raises the decoder's exception; when every part is passed over the
  result is the empty string.
\<close>

theorem get_email_body_first_html:
  "(list_all (\<lambda>r. p_parts r = None \<and> p_mimeType r = Some (lit ''text/html'')) (pre @ q # post)
    \<and> list_all (\<lambda>r. case get_data (p_body r) of None \<Rightarrow> True
                      | Some d \<Rightarrow> d = [] \<or> decode_data d = Inr []) pre
    \<and> get_data (p_body q) = Some d \<and> d \<noteq> [] \<and> decode_data d = Inr t \<and> t \<noteq> []
    \<longrightarrow> get_email_body (Payload mimeType hs b (Some (pre @ q # post))) = Inr t)
   \<and> (list_all (\<lambda>r. p_parts r = None \<and> p_mimeType r = Some (lit ''text/html'')) (pre @ q # post)
    \<and> list_all (\<lambda>r. case get_data (p_body r) of None \<Rightarrow> True
                      | Some d \<Rightarrow> d = [] \<or> decode_data d = Inr []) pre
    \<and> get_data (p_body q) = Some d \<and> d \<noteq> [] \<and> decode_data d = Inl e
    \<longrightarrow> get_email_body (Payload mimeType hs b (Some (pre @ q # post))) = Inl e)
   \<and> (list_all (\<lambda>r. p_parts r = None \<and> p_mimeType r = Some (lit ''text/html'')) pre
    \<and> list_all (\<lambda>r. case get_data (p_body r) of None \<Rightarrow> True
                      | Some d \<Rightarrow> d = [] \<or> decode_data d = Inr []) pre
    \<longrightarrow> get_email_body (Payload mimeType hs b (Some pre)) = Inr [])"
proof (intro conjI impI)
  assume a: "list_all (\<lambda>r. p_parts r = None \<and> p_mimeType r = Some (lit ''text/html'')) (pre @ q # post)
    \<and> list_all (\<lambda>r. case get_data (p_body r) of None \<Rightarrow> True
                      | Some d \<Rightarrow> d = [] \<or> decode_data d = Inr []) pre
    \<and> get_data (p_body q) = Some d \<and> d \<noteq> [] \<and> decode_data d = Inr t \<and> t \<noteq> []"
  then have html: "list_all (\<lambda>r. p_parts r = None \<and> p_mimeType r = Some (lit ''text/html'')) pre"
      "p_parts q = None" "p_mimeType q = Some (lit ''text/html'')"
      "list_all (\<lambda>r. p_parts r = None \<and> p_mimeType r = Some (lit ''text/html'')) post"
    by simp_all
  have "list_all (\<lambda>r. p_mimeType r \<noteq> Some (lit ''text/plain'')
             \<or> get_data (p_body r) = None \<or> get_data (p_body r) = Some []) (pre @ q # post)"
    using a by (simp add: list_all_iff html_not_plain)
  then have pl: "plain_loop (pre @ q # post) = None" by (rule plain_loop_none)
  have "nested_loop (pre @ q # post) [] = nested_loop (q # post) []"
    using html(1) a by (intro nested_loop_skip) simp_all
  also have "\<dots> = nested_loop post t"
    using html a by simp
  also have "\<dots> = Inr t"
    using html(4) a by (intro nested_loop_keep) simp_all
  finally show "get_email_body (Payload mimeType hs b (Some (pre @ q # post))) = Inr t"
    using pl by simp
next
  assume a: "list_all (\<lambda>r. p_parts r = None \<and> p_mimeType r = Some (lit ''text/html'')) (pre @ q # post)
    \<and> list_all (\<lambda>r. case get_data (p_body r) of None \<Rightarrow> True
                      | Some d \<Rightarrow> d = [] \<or> decode_data d = Inr []) pre
    \<and> get_data (p_body q) = Some d \<and> d \<noteq> [] \<and> decode_data d = Inl e"
  then have html: "list_all (\<lambda>r. p_parts r = None \<and> p_mimeType r = Some (lit ''text/html'')) pre"
      "p_parts q = None" "p_mimeType q = Some (lit ''text/html'')"
    by simp_all
  have "list_all (\<lambda>r. p_mimeType r \<noteq> Some (lit ''text/plain'')
             \<or> get_data (p_body r) = None \<or> get_data (p_body r) = Some []) (pre @ q # post)"
    using a by (simp add: list_all_iff html_not_plain)
  then have pl: "plain_loop (pre @ q # post) = None" by (rule plain_loop_none)
  have "nested_loop (pre @ q # post) [] = nested_loop (q # post) []"
    using html(1) a by (intro nested_loop_skip) simp_all
  also have "\<dots> = Inl e"
    using html a by simp
  finally show "get_email_body (Payload mimeType hs b (Some (pre @ q # post))) = Inl e"
    using pl by simp
next
  assume a: "list_all (\<lambda>r. p_parts r = None \<and> p_mimeType r = Some (lit ''text/html'')) pre
    \<and> list_all (\<lambda>r. case get_data (p_body r) of None \<Rightarrow> True
                      | Some d \<Rightarrow> d = [] \<or> decode_data d = Inr []) pre"
  have "list_all (\<lambda>r. p_mimeType r \<noteq> Some (lit ''text/plain'')
             \<or> get_data (p_body r) = None \<or> get_data (p_body r) = Some []) pre"
    using a by (simp add: list_all_iff html_not_plain)
  then have pl: "plain_loop pre = None" by (rule plain_loop_none)
  have "nested_loop (pre @ []) [] = nested_loop [] []"
    using a by (intro nested_loop_skip) simp_all
  then show "get_email_body (Payload mimeType hs b (Some pre)) = Inr []"
    using pl by simp
qed


text \<open>
  The three cases: two parts passed over and then \<open><b>hi</b>\<close>, with a later part \<open>hi\<close>
  that does not appear; a part that cannot be decoded; only parts that are passed over.
\<close>

theorem get_email_body_first_html_witness:
  "get_email_body (Payload (Some (lit ''multipart/alternative'')) None None (Some
     [Payload (Some (lit ''text/html'')) None None None,
      Payload (Some (lit ''text/html'')) None (Some (Body (Some []))) None,
      Payload (Some (lit ''text/html'')) None (Some (Body (Some (lit ''PGI-aGk8L2I-'')))) None,
      Payload (Some (lit ''text/html'')) None (Some (Body (Some (lit ''aGk='')))) None]))
   = Inr (lit ''<b>hi</b>'')
   \<and> get_email_body (Payload (Some (lit ''multipart/alternative'')) None None (Some
     [Payload (Some (lit ''text/html'')) None None None,
      Payload (Some (lit ''text/html'')) None (Some (Body (Some (lit ''a'')))) None,
      Payload (Some (lit ''text/html'')) None (Some (Body (Some (lit ''aGk='')))) None]))
   = Inl BinasciiError
   \<and> get_email_body (Payload (Some (lit ''multipart/alternative'')) None None (Some
     [Payload (Some (lit ''text/html'')) None None None,
      Payload (Some (lit ''text/html'')) None (Some (Body (Some []))) None]))
   = Inr []"
proof (intro conjI)
  show "get_email_body (Payload (Some (lit ''multipart/alternative'')) None None (Some
     [Payload (Some (lit ''text/html'')) None None None,
      Payload (Some (lit ''text/html'')) None (Some (Body (Some []))) None,
      Payload (Some (lit ''text/html'')) None (Some (Body (Some (lit ''PGI-aGk8L2I-'')))) None,
      Payload (Some (lit ''text/html'')) None (Some (Body (Some (lit ''aGk='')))) None]))
   = Inr (lit ''<b>hi</b>'')"
    using get_email_body_first_html
      [of "[Payload (Some (lit ''text/html'')) None None None,
            Payload (Some (lit ''text/html'')) None (Some (Body (Some []))) None]"
          "Payload (Some (lit ''text/html'')) None (Some (Body (Some (lit ''PGI-aGk8L2I-'')))) None"
          "[Payload (Some (lit ''text/html'')) None (Some (Body (Some (lit ''aGk='')))) None]"
          "lit ''PGI-aGk8L2I-''" "lit ''<b>hi</b>''"
          "Some (lit ''multipart/alternative'')" None None]
    by (simp add: get_data_def lit_not_empty decode_b_hi)
  show "get_email_body (Payload (Some (lit ''multipart/alternative'')) None None (Some
     [Payload (Some (lit ''text/html'')) None None None,
      Payload (Some (lit ''text/html'')) None (Some (Body (Some (lit ''a'')))) None,
      Payload (Some (lit ''text/html'')) None (Some (Body (Some (lit ''aGk='')))) None]))
   = Inl BinasciiError"
    using get_email_body_first_html
      [of "[Payload (Some (lit ''text/html'')) None None None]"
          "Payload (Some (lit ''text/html'')) None (Some (Body (Some (lit ''a'')))) None"
          "[Payload (Some (lit ''text/html'')) None (Some (Body (Some (lit ''aGk='')))) None]"
          "lit ''a''" _
          "Some (lit ''multipart/alternative'')" None None BinasciiError]
    by (simp add: get_data_def lit_not_empty decode_a)
  show "get_email_body (Payload (Some (lit ''multipart/alternative'')) None None (Some
     [Payload (Some (lit ''text/html'')) None None None,
      Payload (Some (lit ''text/html'')) None (Some (Body (Some []))) None]))
   = Inr []"
    using get_email_body_first_html
      [of "[Payload (Some (lit ''text/html'')) None None None,
            Payload (Some (lit ''text/html'')) None (Some (Body (Some []))) None]"
          _ _ _ _ "Some (lit ''multipart/alternative'')" None None]
    by (simp add: get_data_def)
qed

text \<open>
  C5 as stated fails: when the first HTML part has the empty string as data (which
  decodes to the empty text), or no data, the text of the second HTML part is returned.
\<close>

theorem get_email_body_html_counterexample:
  "decode_data [] = Inr []
   \<and> get_email_body (Payload (Some (lit ''multipart/alternative'')) None None (Some
     [Payload (Some (lit ''text/html'')) None (Some (Body (Some []))) None,
      Payload (Some (lit ''text/html'')) None (Some (Body (Some (lit ''aGk='')))) None]))
   = Inr (lit ''hi'')
   \<and> get_email_body (Payload (Some (lit ''multipart/alternative'')) None None (Some
     [Payload (Some (lit ''text/html'')) None (Some (Body None)) None,
      Payload (Some (lit ''text/html'')) None (Some (Body (Some (lit ''aGk='')))) None]))
   = Inr (lit ''hi'')
   \<and> lit ''hi'' \<noteq> []"
  by (simp add: get_data_def mime_distinct lit_not_empty decode_hi decode_empty)

subsection \<open>The calls of \<^verbatim>\<open>_get_email_body\<close> and the stack\<close>


lemma decode_at_fits: "\<not> stack k (Decode d) \<Longrightarrow> decode_at stack k d = decode_data d"
  by (simp add: decode_at_def)







lemma nest_has_parts: "p_parts (nest n) \<noteq> None"
  by (cases n) simp_all




lemma nest_depth: "depth (nest n) = Suc n"
  by (induction n) (simp_all add: nest_has_parts)









section \<open>Summarizing a message\<close>






















end
